theory Spec2Isabelle
  imports Complex_Main "HOL-Library.Sublist" "HOL-Library.AList"
begin

section \<open>Values of the host language\<close>

text \<open>
  A string of the program is a list of code units, written as a \<^typ>\<open>string\<close>; its
  length is the number of code units, as \<^verbatim>\<open>s.length\<close> counts them. An optional
  string (\<^verbatim>\<open>string | undefined\<close>) is a \<^typ>\<open>string option\<close>. A value read from
  JSON text is a \<open>json\<close>: an object keeps its members in property order.
\<close>

datatype json =
    JNull
  | JBool bool
  | JNum int
  | JStr string
  | JArr "json list"
  | JObj "(string \<times> json) list"

text \<open>Truthiness of an optional string: \<^verbatim>\<open>undefined\<close> and \<^verbatim>\<open>""\<close> are falsy.\<close>

definition truthy :: "string option \<Rightarrow> bool" where
  "truthy v = (case v of None \<Rightarrow> False | Some s \<Rightarrow> s \<noteq> [])"

text \<open>The string held by an optional string that is known to be truthy.\<close>

definition val :: "string option \<Rightarrow> string" where
  "val v = (case v of None \<Rightarrow> [] | Some s \<Rightarrow> s)"

text \<open>\<^verbatim>\<open>a || b\<close> on an optional string and a string.\<close>

definition js_or :: "string option \<Rightarrow> string \<Rightarrow> string" where
  "js_or a b = (if truthy a then val a else b)"

text \<open>\<^verbatim>\<open>s.includes(sub)\<close>: \<open>sub\<close> occurs in \<open>s\<close> as a contiguous run.\<close>

definition str_includes :: "string \<Rightarrow> string \<Rightarrow> bool" where
  "str_includes s sub = sublist sub s"

text \<open>
  \<^verbatim>\<open>s.toLowerCase()\<close> on code units below 256: the letters A to Z and the
  accented capitals 192 to 222 (but 215, the multiplication sign) move up by 32, which
  sets the bit of weight 32; every other code unit stays.
\<close>

definition is_upper :: "char \<Rightarrow> bool" where
  "is_upper c =
     (let n = (of_char c :: nat)
      in (65 \<le> n \<and> n \<le> 90) \<or> (192 \<le> n \<and> n \<le> 214) \<or> (216 \<le> n \<and> n \<le> 222))"

definition lower_char :: "char \<Rightarrow> char" where
  "lower_char c =
     (if is_upper c
      then (case c of Char b0 b1 b2 b3 b4 b5 b6 b7 \<Rightarrow> Char b0 b1 b2 b3 b4 True b6 b7)
      else c)"

definition toLowerCase :: "string \<Rightarrow> string" where
  "toLowerCase s = map lower_char s"

text \<open>
  Truthiness of a value: \<^verbatim>\<open>null\<close>, \<^verbatim>\<open>false\<close>, \<^verbatim>\<open>0\<close> and \<^verbatim>\<open>""\<close> are falsy,
  every array and object is truthy; \<^verbatim>\<open>undefined\<close>, a missing value, is falsy.
\<close>

definition json_truthy :: "json \<Rightarrow> bool" where
  "json_truthy v =
     (case v of
        JNull \<Rightarrow> False
      | JBool b \<Rightarrow> b
      | JNum n \<Rightarrow> n \<noteq> 0
      | JStr s \<Rightarrow> s \<noteq> []
      | JArr xs \<Rightarrow> True
      | JObj ms \<Rightarrow> True)"

definition value_truthy :: "json option \<Rightarrow> bool" where
  "value_truthy v = (case v of None \<Rightarrow> False | Some x \<Rightarrow> json_truthy x)"

text \<open>
  The conversion of a value to a string, as \<^verbatim>\<open>+\<close> on a string and the argument of
  \<^verbatim>\<open>JSON.parse\<close> apply it: a string is itself, an integer its decimal digits, an
  array its elements joined by commas with \<^verbatim>\<open>null\<close> as the empty string, an object
  \<^verbatim>\<open>[object Object]\<close>.
\<close>

fun decimal :: "nat \<Rightarrow> string" where
  "decimal n =
     (if n < 10 then [''0123456789'' ! n]
      else decimal (n div 10) @ [''0123456789'' ! (n mod 10)])"

definition join_with :: "string \<Rightarrow> string list \<Rightarrow> string" where
  "join_with sep xs = (case xs of [] \<Rightarrow> [] | y # ys \<Rightarrow> y @ concat (map (\<lambda>z. sep @ z) ys))"

fun to_string :: "json \<Rightarrow> string"
  and elements_to_string :: "json list \<Rightarrow> string list" where
  "to_string JNull = ''null''"
| "to_string (JBool b) = (if b then ''true'' else ''false'')"
| "to_string (JNum n) = (if n < 0 then CHR ''-'' # decimal (nat (- n)) else decimal (nat n))"
| "to_string (JStr s) = s"
| "to_string (JArr xs) = join_with '','' (elements_to_string xs)"
| "to_string (JObj ms) = ''[object Object]''"
| "elements_to_string [] = []"
| "elements_to_string (x # xs) =
     (if x = JNull then [] else to_string x) # elements_to_string xs"

section \<open>The router: \<^verbatim>\<open>getHandlerForRequest\<close> of proxy-server.ts\<close>

record ModelMap =
  opus :: "string option"
  sonnet :: "string option"
  haiku :: "string option"
  subagent :: "string option"

text \<open>The arguments of \<^verbatim>\<open>createProxyServer\<close>.\<close>

record ProxyArgs =
  port :: nat
  openrouterApiKey :: "string option"
  model :: "string option"
  monitorMode :: bool
  anthropicApiKey :: "string option"
  geminiApiKey :: "string option"
  useGeminiNative :: bool
  modelMap :: "ModelMap option"

text \<open>
  The handler instances of one server: the native handler, the Gemini native handler
  (it exists only when a Gemini key is given) and one OpenRouter handler per target
  model, which \<^verbatim>\<open>getOpenRouterHandler\<close> keeps in a map keyed by the target, so
  the key names the instance.
\<close>

datatype APIHandler =
    NativeHandler
  | GeminiNativeHandler
  | OpenRouterHandler string

definition geminiNativeHandler :: "ProxyArgs \<Rightarrow> APIHandler option" where
  "geminiNativeHandler cfg =
     (if truthy (geminiApiKey cfg) then Some GeminiNativeHandler else None)"

text \<open>
  Step 2 of \<^verbatim>\<open>getHandlerForRequest\<close>: the target starts as the global default or
  the requested id, and the first branch of the chain whose substring test and
  override both hold replaces it.
\<close>

definition resolveTarget :: "ProxyArgs \<Rightarrow> string \<Rightarrow> string" where
  "resolveTarget cfg requestedModel =
     (let target = js_or (model cfg) requestedModel;
          req = toLowerCase requestedModel
      in case modelMap cfg of
           None \<Rightarrow> target
         | Some mm \<Rightarrow>
             if str_includes req ''opus'' \<and> truthy (opus mm) then val (opus mm)
             else if str_includes req ''sonnet'' \<and> truthy (sonnet mm) then val (sonnet mm)
             else if str_includes req ''haiku'' \<and> truthy (haiku mm) then val (haiku mm)
             else target)"

definition getHandlerForRequest :: "ProxyArgs \<Rightarrow> string \<Rightarrow> APIHandler" where
  "getHandlerForRequest cfg requestedModel =
     (if monitorMode cfg then NativeHandler
      else
        let target = resolveTarget cfg requestedModel
        in if useGeminiNative cfg \<and> geminiNativeHandler cfg \<noteq> None then GeminiNativeHandler
           else
             let isGeminiModel = (str_includes target ''gemini'' \<or> str_includes target ''google/'')
             in if isGeminiModel \<and> geminiNativeHandler cfg \<noteq> None then GeminiNativeHandler
                else
                  let isNativeAnthropic = (\<not> str_includes target ''/'')
                  in if isNativeAnthropic then NativeHandler
                     else OpenRouterHandler target)"

text \<open>
  The resolution as the specification words it: the tiers in their order, each with
  its configured override; the first tier whose name occurs in the lower-cased id and
  whose override is configured gives the target; otherwise the global default when
  configured, else the requested id.
\<close>

definition tier_overrides :: "ModelMap option \<Rightarrow> (string \<times> string option) list" where
  "tier_overrides mo =
     (case mo of
        None \<Rightarrow> []
      | Some mm \<Rightarrow> [(''opus'', opus mm), (''sonnet'', sonnet mm), (''haiku'', haiku mm)])"

definition spec_resolved_target :: "ProxyArgs \<Rightarrow> string \<Rightarrow> string" where
  "spec_resolved_target cfg requestedModel =
     (case find (\<lambda>(tier, ov). str_includes (toLowerCase requestedModel) tier \<and> truthy ov)
             (tier_overrides (modelMap cfg)) of
        Some (tier, ov) \<Rightarrow> val ov
      | None \<Rightarrow> (if truthy (model cfg) then val (model cfg) else requestedModel))"

section \<open>The canonical stream: the \<^verbatim>\<open>/v1/messages\<close> route of proxy-server.ts\<close>

record ToolCall =
  tc_id :: string
  tc_name :: string
  args :: json
  signature :: "string option"

record GenerationResult =
  fullContent :: string
  toolCalls :: "ToolCall list"
  reasoningDetails :: "json list"

text \<open>
  The frames the route enqueues, by their \<^verbatim>\<open>type\<close> and the fields that vary:
  \<open>message_start\<close> carries the clock reading of its id and the request's model,
  \<open>message_delta\<close> the stop reason and \<^verbatim>\<open>usage.output_tokens\<close>, \<open>terminator\<close> is
  the line \<^verbatim>\<open>data: [DONE]\<close>, \<open>error_event\<close> the \<^verbatim>\<open>server_error\<close> event with its message.
\<close>

datatype content_block =
    text_block string
  | tool_use_block string string json

datatype frame =
    message_start nat string
  | content_block_start nat content_block
  | content_block_delta nat string
  | content_block_stop nat
  | message_delta string nat
  | message_stop
  | terminator
  | error_event string

text \<open>What the route does to the stream controller, in order.\<close>

datatype controller_call = enqueue frame | close

text \<open>The variables the stream closure shares with \<^verbatim>\<open>onChunk\<close>.\<close>

record stream_vars =
  fullContent_v :: string
  streamedContent :: string
  isFirstTextChunk :: bool
  currentToolUseIndex :: nat
  calls :: "controller_call list"

definition textBlockIndex :: nat where
  "textBlockIndex = 0"

definition initial_vars :: stream_vars where
  "initial_vars =
     \<lparr>fullContent_v = [], streamedContent = [], isFirstTextChunk = True,
      currentToolUseIndex = 0, calls = []\<rparr>"

text \<open>
  The callback handed to the handler. \<open>now\<close> is the clock at the first chunk,
  \<open>body_model\<close> the model of the request body.
\<close>

definition onChunk :: "nat \<Rightarrow> string \<Rightarrow> stream_vars \<Rightarrow> string \<Rightarrow> stream_vars" where
  "onChunk now body_model v chunk =
     (let v1 = v\<lparr>fullContent_v := fullContent_v v @ chunk\<rparr>;
          v2 = (if isFirstTextChunk v1
                then v1\<lparr>calls := calls v1 @
                            [enqueue (message_start now body_model),
                             enqueue (content_block_start textBlockIndex (text_block []))],
                        isFirstTextChunk := False\<rparr>
                else v1);
          v3 = v2\<lparr>calls := calls v2 @ [enqueue (content_block_delta textBlockIndex chunk)]\<rparr>
      in v3\<lparr>streamedContent := streamedContent v3 @ chunk\<rparr>)"

text \<open>The loop over \<^verbatim>\<open>result.toolCalls\<close>.\<close>

fun emitToolCalls :: "stream_vars \<Rightarrow> ToolCall list \<Rightarrow> stream_vars" where
  "emitToolCalls v [] = v"
| "emitToolCalls v (tc # tcs) =
     (let toolUseBlockIndex = currentToolUseIndex v + 1
      in emitToolCalls
           (v\<lparr>currentToolUseIndex := toolUseBlockIndex,
              calls := calls v @
                [enqueue (content_block_start toolUseBlockIndex
                            (tool_use_block (tc_id tc) (tc_name tc) (args tc))),
                 enqueue (content_block_stop toolUseBlockIndex)]\<rparr>)
           tcs)"

definition closeTextBlock :: "stream_vars \<Rightarrow> stream_vars" where
  "closeTextBlock v =
     (if \<not> isFirstTextChunk v
      then v\<lparr>calls := calls v @ [enqueue (content_block_stop textBlockIndex)]\<rparr>
      else v)"

text \<open>\<^verbatim>\<open>Math.ceil(n / 4)\<close>, and the output-token estimate of the closing frame.\<close>

definition ceil4 :: "nat \<Rightarrow> nat" where
  "ceil4 n = nat \<lceil>real n / 4\<rceil>"

definition output_tokens :: "string \<Rightarrow> nat" where
  "output_tokens streamed = (if length streamed > 0 then ceil4 (length streamed) else 1)"

text \<open>
  One run of \<^verbatim>\<open>handler.generate\<close> as the route sees it: the chunks it passes to
  \<^verbatim>\<open>onChunk\<close>, in order, and then either the result it resolves with or the message
  of the error it rejects with. \<open>start\<close> is the body of the stream's \<^verbatim>\<open>start\<close>.
\<close>

definition start ::
  "nat \<Rightarrow> string \<Rightarrow> string list \<Rightarrow> string + GenerationResult \<Rightarrow> controller_call list" where
  "start now body_model chunks outcome =
     (let v = foldl (onChunk now body_model) initial_vars chunks
      in case outcome of
           Inl errorMessage \<Rightarrow>
             calls v @ [enqueue (error_event (''Stream error: '' @ errorMessage)), close]
         | Inr result \<Rightarrow>
             let v1 = (if toolCalls result \<noteq> []
                       then emitToolCalls (closeTextBlock v) (toolCalls result)
                       else closeTextBlock v)
             in calls v1 @
                  [enqueue (message_delta ''end_turn'' (output_tokens (streamedContent v1))),
                   enqueue message_stop,
                   enqueue terminator,
                   close])"

text \<open>The frames of a run, and the indices of its tool-use and text blocks.\<close>

fun emitted :: "controller_call list \<Rightarrow> frame list" where
  "emitted [] = []"
| "emitted (enqueue f # cs) = f # emitted cs"
| "emitted (close # cs) = emitted cs"

fun block_indices :: "frame list \<Rightarrow> nat list" where
  "block_indices [] = []"
| "block_indices (content_block_start i b # fs) = i # block_indices fs"
| "block_indices (content_block_delta i t # fs) = i # block_indices fs"
| "block_indices (content_block_stop i # fs) = i # block_indices fs"
| "block_indices (f # fs) = block_indices fs"

fun tool_use_indices :: "frame list \<Rightarrow> nat list" where
  "tool_use_indices [] = []"
| "tool_use_indices (content_block_start i (tool_use_block a b c) # fs) = i # tool_use_indices fs"
| "tool_use_indices (f # fs) = tool_use_indices fs"

text \<open>
  The frames of the tool-use blocks, numbered from the counter \<open>k\<close>, and the frames of
  the text block: both name what the run enqueues, for the statements below.
\<close>

definition tool_use_frames :: "nat \<Rightarrow> ToolCall list \<Rightarrow> frame list" where
  "tool_use_frames k tcs =
     concat (map (\<lambda>(i, tc). [content_block_start i
                                  (tool_use_block (tc_id tc) (tc_name tc) (args tc)),
                               content_block_stop i])
                 (enumerate (Suc k) tcs))"

definition text_frames :: "nat \<Rightarrow> string \<Rightarrow> string list \<Rightarrow> frame list" where
  "text_frames now body_model chunks =
     (if chunks = [] then []
      else [message_start now body_model, content_block_start 0 (text_block [])] @
           map (content_block_delta 0) chunks @
           [content_block_stop 0])"

text \<open>A result with no text and no tool call, and a server configuration, for the examples.\<close>

definition empty_result :: GenerationResult where
  "empty_result = \<lparr>fullContent = [], toolCalls = [], reasoningDetails = []\<rparr>"

definition example_args :: ProxyArgs where
  "example_args =
     \<lparr>port = 3000, openrouterApiKey = Some ''sk-or'',
      model = Some ''x-ai/grok-code-fast-1'', monitorMode = False,
      anthropicApiKey = None, geminiApiKey = Some ''g-key'', useGeminiNative = False,
      modelMap = Some \<lparr>opus = Some ''openai/gpt-5'',
                       sonnet = Some ''google/gemini-2.5-flash'',
                       haiku = None, subagent = None\<rparr>\<rparr>"


section \<open>The Gemini request: \<^verbatim>\<open>GeminiNativeHandler.generate\<close> of gemini-native-handler.ts\<close>

text \<open>The messages of types.ts. A field the interface marks optional is an option.\<close>

datatype role = User | Assistant | System | Tool

datatype block_kind = Kind_text | Kind_image_url | Kind_tool_use | Kind_tool_result

datatype result_content = ContentText string | ContentObject json

record GenericContentBlock =
  block_type :: block_kind
  block_text :: "string option"
  block_image_url :: "string option"
  block_id :: "string option"
  block_name :: "string option"
  block_input :: "json option"
  block_tool_use_id :: "string option"
  block_content :: "result_content option"

datatype message_content = Str string | Blocks "GenericContentBlock list"

record Message =
  role :: role
  content :: message_content
  tool_calls :: "ToolCall list option"
  tool_call_id :: "string option"

record ModelConfig =
  maxOutputTokens :: "nat option"
  temperature :: "real option"
  topP :: "real option"
  topK :: "nat option"

text \<open>
  The messages of the Gemini client: a role, which is \<^verbatim>\<open>undefined\<close> for a role the
  handler does not map, and the parts, by the one key each part object has.
\<close>

datatype gemini_role = Role_user | Role_model | Role_function

datatype part =
    TextPart string
  | ImagePart string "string option"
  | FunctionCallPart string json
  | FunctionResponsePart "string option" result_content

record gemini_message =
  g_role :: "gemini_role option"
  parts :: "part list"

text \<open>\<^verbatim>\<open>s.split(',')\<close> and \<^verbatim>\<open>xs[i]\<close>, which is \<^verbatim>\<open>undefined\<close> out of range.\<close>

fun split_on :: "char \<Rightarrow> string \<Rightarrow> string list" where
  "split_on sep [] = [[]]"
| "split_on sep (c # cs) =
     (if c = sep then [] # split_on sep cs
      else (case split_on sep cs of
              [] \<Rightarrow> [[c]]
            | l # ls \<Rightarrow> (c # l) # ls))"

definition element :: "'a list \<Rightarrow> nat \<Rightarrow> 'a option" where
  "element xs i = (if i < length xs then Some (xs ! i) else None)"

definition content_truthy :: "result_content option \<Rightarrow> bool" where
  "content_truthy c =
     (case c of
        None \<Rightarrow> False
      | Some (ContentText s) \<Rightarrow> s \<noteq> []
      | Some (ContentObject v) \<Rightarrow> json_truthy v)"

definition gemini_role_of :: "role \<Rightarrow> gemini_role option" where
  "gemini_role_of r =
     (if r = User then Some Role_user
      else if r = Assistant then Some Role_model
      else if r = Tool then Some Role_function
      else None)"

text \<open>The chain of tests on one content block; a block no test accepts gives no part.\<close>

definition block_parts :: "Message \<Rightarrow> GenericContentBlock \<Rightarrow> part list" where
  "block_parts msg block =
     (if block_type block = Kind_text \<and> truthy (block_text block)
        then [TextPart (val (block_text block))]
      else if block_type block = Kind_image_url \<and> block_image_url block \<noteq> None
        then [ImagePart ''image/png''
                (element (split_on CHR '','' (val (block_image_url block))) 1)]
      else if block_type block = Kind_tool_use \<and> truthy (block_name block) \<and>
              value_truthy (block_input block)
        then (case block_input block of
                None \<Rightarrow> []
              | Some i \<Rightarrow> [FunctionCallPart (val (block_name block)) i])
      else if block_type block = Kind_tool_result \<and> truthy (tool_call_id msg) \<and>
              content_truthy (block_content block)
        then (case block_content block of
                None \<Rightarrow> []
              | Some c \<Rightarrow>
                  [FunctionResponsePart
                     (if truthy (block_id block) then block_id block
                      else block_tool_use_id block) c])
      else [])"

definition tool_call_parts :: "Message \<Rightarrow> part list" where
  "tool_call_parts msg =
     (case tool_calls msg of
        None \<Rightarrow> []
      | Some tcs \<Rightarrow>
          if role msg = Assistant \<and> length tcs > 0
          then map (\<lambda>tc. FunctionCallPart (tc_name tc) (args tc)) tcs
          else [])"

definition to_gemini :: "Message \<Rightarrow> gemini_message" where
  "to_gemini msg =
     \<lparr>g_role = gemini_role_of (role msg),
      parts = (case content msg of
                 Str s \<Rightarrow> [TextPart s]
               | Blocks bs \<Rightarrow> concat (map (block_parts msg) bs))
              @ tool_call_parts msg\<rparr>"

text \<open>\<^verbatim>\<open>messages.map(...).filter(msg => msg.role !== undefined)\<close>.\<close>

definition geminiMessages :: "Message list \<Rightarrow> gemini_message list" where
  "geminiMessages messages = filter (\<lambda>m. g_role m \<noteq> None) (map to_gemini messages)"

text \<open>
  A part as the value \<^verbatim>\<open>JSON.stringify\<close> is given, and
  \<^verbatim>\<open>part.text || JSON.stringify(part)\<close>; the serialiser is the host's, a parameter.
\<close>

definition content_json :: "result_content \<Rightarrow> json" where
  "content_json c = (case c of ContentText s \<Rightarrow> JStr s | ContentObject v \<Rightarrow> v)"

definition part_json :: "part \<Rightarrow> json" where
  "part_json p =
     (case p of
        TextPart s \<Rightarrow> JObj [(''text'', JStr s)]
      | ImagePart mime d \<Rightarrow>
          JObj [(''image'', JObj [(''inlineData'',
                  JObj ((''mimeType'', JStr mime) #
                        (case d of None \<Rightarrow> [] | Some x \<Rightarrow> [(''data'', JStr x)])))])]
      | FunctionCallPart n a \<Rightarrow>
          JObj [(''functionCall'', JObj [(''name'', JStr n), (''args'', a)])]
      | FunctionResponsePart n c \<Rightarrow>
          JObj [(''functionResponse'',
                 JObj ((case n of None \<Rightarrow> [] | Some x \<Rightarrow> [(''name'', JStr x)]) @
                       [(''response'',
                         JObj ((case n of None \<Rightarrow> [] | Some x \<Rightarrow> [(''name'', JStr x)]) @
                               [(''content'', content_json c)]))]))])"

definition part_text :: "(json \<Rightarrow> string) \<Rightarrow> part \<Rightarrow> string" where
  "part_text stringify p =
     (case p of
        TextPart s \<Rightarrow> (if s \<noteq> [] then s else stringify (part_json p))
      | _ \<Rightarrow> stringify (part_json p))"

record tool_declaration =
  tool_name :: string
  tool_description :: "string option"
  input_schema :: "json option"

text \<open>
  What \<^verbatim>\<open>generate\<close> hands to the Gemini client: the model, the chat parameters of
  \<^verbatim>\<open>startChat\<close> (history, generation configuration, tools) and the argument of
  \<^verbatim>\<open>sendMessageStream\<close>.
\<close>

record gemini_request =
  request_model :: string
  history :: "gemini_message list"
  generationConfig :: ModelConfig
  function_declarations :: "tool_declaration list option"
  sent_message :: message_content

datatype gemini_error = TypeError

text \<open>
  The last Gemini message, when its role is user, is popped from the history and its
  parts are joined into \<^verbatim>\<open>lastUserMessageContent\<close>. The argument of
  \<^verbatim>\<open>sendMessageStream\<close> is
  \<^verbatim>\<open>lastUserMessageContent || messages[messages.length - 1].content\<close>: the second
  operand reads the inbound list, not the filtered one, and throws on an empty list.
\<close>

definition gemini_request_of ::
  "(json \<Rightarrow> string) \<Rightarrow> Message list \<Rightarrow> string \<Rightarrow> ModelConfig option \<Rightarrow>
   tool_declaration list option \<Rightarrow> gemini_error + gemini_request" where
  "gemini_request_of stringify messages modelId modelConfig tools =
     (let gs = geminiMessages messages;
          is_user_last = (gs \<noteq> [] \<and> g_role (last gs) = Some Role_user);
          hist = (if is_user_last then butlast gs else gs);
          lastUserMessageContent =
            (if is_user_last \<and> parts (last gs) \<noteq> []
             then Some (concat (map (part_text stringify) (parts (last gs))))
             else None);
          config = (case modelConfig of
                      None \<Rightarrow> \<lparr>maxOutputTokens = None, temperature = None,
                                topP = None, topK = None\<rparr>
                    | Some c \<Rightarrow> c);
          decls = (case tools of
                     None \<Rightarrow> None
                   | Some ts \<Rightarrow> if length ts > 0 then Some ts else None)
      in if truthy lastUserMessageContent
         then Inr \<lparr>request_model = modelId, history = hist, generationConfig = config,
                   function_declarations = decls,
                   sent_message = Str (val lastUserMessageContent)\<rparr>
         else if messages = [] then Inl TypeError
         else Inr \<lparr>request_model = modelId, history = hist, generationConfig = config,
                   function_declarations = decls,
                   sent_message = content (last messages)\<rparr>)"

text \<open>
  The message list the route builds from a request body that has a \<^verbatim>\<open>system\<close>
  prompt and an empty \<^verbatim>\<open>messages\<close> array: the consolidated system message alone.
\<close>

definition system_only :: "Message list" where
  "system_only =
     [\<lparr>role = System, content = Str ''Answer in French.'', tool_calls = None,
       tool_call_id = None\<rparr>]"

section \<open>The aggregator stream: \<^verbatim>\<open>handleStreamingResponse\<close> of openrouter-handler.ts\<close>

text \<open>
  The section models \<^verbatim>\<open>handleStreamingResponse\<close> itself, on the response it is
  given. \<^verbatim>\<open>generate\<close> calls it last, after \<^verbatim>\<open>this.convertMessages\<close>, a method the
  class does not define; nothing below is about \<^verbatim>\<open>generate\<close>.

  A payload that parses is a value of any shape, and the handler reads it as the
  language does. \<open>member_of v k\<close> is \<^verbatim>\<open>v.k\<close> on a value that is not \<^verbatim>\<open>null\<close>, for
  the member names the handler reads (\<^verbatim>\<open>choices\<close>, \<^verbatim>\<open>delta\<close>, \<^verbatim>\<open>content\<close>,
  \<^verbatim>\<open>tool_calls\<close>, \<^verbatim>\<open>function\<close>, \<^verbatim>\<open>name\<close>, \<^verbatim>\<open>arguments\<close>, \<^verbatim>\<open>id\<close>): an
  object gives its member, and a number, a boolean, a string or an array has no such
  member. \<open>index0 v\<close> is \<^verbatim>\<open>v[0]\<close>: the first element of an array, the first
  character of a string, the member \<^verbatim>\<open>0\<close> of an object.
\<close>

definition member_of :: "json \<Rightarrow> string \<Rightarrow> json option" where
  "member_of v k = (case v of JObj ms \<Rightarrow> map_of ms k | _ \<Rightarrow> None)"

definition index0 :: "json \<Rightarrow> json option" where
  "index0 v =
     (case v of
        JArr xs \<Rightarrow> (case xs of [] \<Rightarrow> None | x # rest \<Rightarrow> Some x)
      | JStr s \<Rightarrow> (case s of [] \<Rightarrow> None | c # rest \<Rightarrow> Some (JStr [c]))
      | JObj ms \<Rightarrow> map_of ms ''0''
      | _ \<Rightarrow> None)"

text \<open>
  \<^verbatim>\<open>v?.k\<close> and \<^verbatim>\<open>v?.[0]\<close>: \<^verbatim>\<open>undefined\<close> when \<open>v\<close> is \<^verbatim>\<open>undefined\<close> or
  \<^verbatim>\<open>null\<close>.
\<close>

definition opt_member :: "json option \<Rightarrow> string \<Rightarrow> json option" where
  "opt_member v k =
     (case v of None \<Rightarrow> None | Some x \<Rightarrow> if x = JNull then None else member_of x k)"

definition opt_index0 :: "json option \<Rightarrow> json option" where
  "opt_index0 v =
     (case v of None \<Rightarrow> None | Some x \<Rightarrow> if x = JNull then None else index0 x)"

text \<open>
  \<^verbatim>\<open>chunk.choices?.[0]?.delta\<close>. The first read is not optional: it throws when the
  chunk is \<^verbatim>\<open>null\<close>, which is the outer \<open>None\<close>.
\<close>

definition chunk_delta :: "json \<Rightarrow> json option option" where
  "chunk_delta parsed =
     (if parsed = JNull then None
      else Some (opt_member (opt_index0 (member_of parsed ''choices'')) ''delta''))"

text \<open>
  \<^verbatim>\<open>for (const tc of v)\<close>: the elements of an array, the characters of a string;
  any other value is not iterable and the loop throws, which is \<open>None\<close>.
\<close>

definition iterate :: "json \<Rightarrow> json list option" where
  "iterate v =
     (case v of
        JArr xs \<Rightarrow> Some xs
      | JStr s \<Rightarrow> Some (map (\<lambda>c. JStr [c]) s)
      | _ \<Rightarrow> None)"

text \<open>
  A step inside the \<^verbatim>\<open>try\<close> block either completes or throws; both leave the
  variables as they are at that point.
\<close>

datatype 'a attempt = Completed 'a | Thrown 'a


fun vars_of :: "'a attempt \<Rightarrow> 'a" where
  "vars_of (Completed s) = s"
| "vars_of (Thrown s) = s"

text \<open>
  What the handler takes from its environment: \<^verbatim>\<open>JSON.parse\<close> (\<open>None\<close> when it
  throws) and \<^verbatim>\<open>JSON.stringify\<close>; the middleware hook \<^verbatim>\<open>afterStreamChunk\<close> on the
  shared metadata and the parsed chunk, which may throw; the empty metadata; the
  \<^verbatim>\<open>reasoning_details\<close> read from the metadata at the end; and the source of the
  generated tool-call ids, by the number of ids generated before. The hook reads the
  chunk and leaves it as it is, and the callback \<^verbatim>\<open>onChunk\<close> returns normally.
\<close>

record 'm host =
  JSON_parse :: "string \<Rightarrow> json option"
  JSON_stringify :: "json \<Rightarrow> string"
  afterStreamChunk :: "'m \<Rightarrow> json \<Rightarrow> 'm attempt"
  newMetadata :: 'm
  reasoning_details :: "'m \<Rightarrow> json list"
  generateToolId :: "nat \<Rightarrow> string"

text \<open>
  The object the handler builds for a tool call, and the object it returns. The
  interface types \<^verbatim>\<open>id\<close> and \<^verbatim>\<open>name\<close> as strings and the argument of
  \<^verbatim>\<open>onChunk\<close> as a string; the handler stores and passes the values of the chunk
  unchecked, so they are values here.
\<close>

record stored_call =
  call_id :: json
  call_name :: json
  call_args :: json

record stream_result =
  r_fullContent :: string
  r_toolCalls :: "stored_call list"
  r_reasoningDetails :: "json list"

text \<open>
  The variables of one call. \<open>currentToolCall\<close> refers to an element of the
  \<open>toolCalls\<close> array, so it is the index of that element. \<open>delivered\<close> lists the
  arguments of the calls of \<^verbatim>\<open>onChunk\<close>, \<open>logged\<close> counts the calls of \<^verbatim>\<open>log\<close> in
  the \<^verbatim>\<open>catch\<close> of a chunk.
\<close>

record 'm handler_vars =
  fullContent_h :: string
  toolCalls_h :: "stored_call list"
  currentToolCall :: "nat option"
  streamMetadata :: 'm
  delivered :: "json list"
  ids_made :: nat
  logged :: nat

definition initial_handler_vars :: "'m host \<Rightarrow> 'm handler_vars" where
  "initial_handler_vars h =
     \<lparr>fullContent_h = [], toolCalls_h = [], currentToolCall = None,
      streamMetadata = newMetadata h, delivered = [], ids_made = 0, logged = 0\<rparr>"

definition log_error :: "'m handler_vars \<Rightarrow> 'm handler_vars" where
  "log_error s = s\<lparr>logged := Suc (logged s)\<rparr>"

text \<open>
  The text \<^verbatim>\<open>JSON.parse\<close> is given for a call that opens,
  \<^verbatim>\<open>tc.function.arguments || "{}"\<close>, converted to a string.
\<close>

definition arguments_text :: "json option \<Rightarrow> string" where
  "arguments_text a =
     (case a of
        None \<Rightarrow> ''{}''
      | Some v \<Rightarrow> if json_truthy v then to_string v else ''{}'')"

text \<open>
  The body of the loop over \<^verbatim>\<open>delta.tool_calls\<close>. Reading \<^verbatim>\<open>tc.function\<close> throws
  on a \<^verbatim>\<open>null\<close> entry. An entry with a truthy \<^verbatim>\<open>function.name\<close> opens a call: its
  id is read or generated, then its arguments, or \<^verbatim>\<open>"{}"\<close> when they are falsy, are
  parsed, and only then is the call assigned and pushed. Any other entry, when a call
  is current and the entry has truthy arguments, serialises the args of the current
  call, drops the last character, appends the arguments and a closing brace, parses the
  result and assigns it.
\<close>

definition on_tool_call ::
  "'m host \<Rightarrow> 'm handler_vars \<Rightarrow> json \<Rightarrow> 'm handler_vars attempt" where
  "on_tool_call h s tc =
     (if tc = JNull then Thrown s
      else
        let name = opt_member (member_of tc ''function'') ''name'';
            arguments = opt_member (member_of tc ''function'') ''arguments''
        in if value_truthy name then
             let s1 = (if value_truthy (member_of tc ''id'') then s
                       else s\<lparr>ids_made := Suc (ids_made s)\<rparr>);
                 new_id = (case member_of tc ''id'' of
                             None \<Rightarrow> JStr (generateToolId h (ids_made s))
                           | Some i \<Rightarrow> if json_truthy i then i
                                      else JStr (generateToolId h (ids_made s)));
                 new_name = (case name of None \<Rightarrow> JNull | Some n \<Rightarrow> n)
             in case JSON_parse h (arguments_text arguments) of
                  None \<Rightarrow> Thrown s1
                | Some a \<Rightarrow>
                    Completed
                      (s1\<lparr>toolCalls_h := toolCalls_h s1 @
                             [\<lparr>call_id = new_id, call_name = new_name, call_args = a\<rparr>],
                          currentToolCall := Some (length (toolCalls_h s1))\<rparr>)
           else if currentToolCall s \<noteq> None \<and> value_truthy arguments then
             (case (currentToolCall s, arguments) of
                (Some i, Some v) \<Rightarrow>
                  (case element (toolCalls_h s) i of
                     None \<Rightarrow> Completed s
                   | Some cur \<Rightarrow>
                       let existingArgs = JSON_stringify h (call_args cur);
                           newArgs = butlast existingArgs @ to_string v @ ''}''
                       in case JSON_parse h newArgs of
                            None \<Rightarrow> Thrown s
                          | Some a \<Rightarrow>
                              Completed
                                (s\<lparr>toolCalls_h :=
                                     (toolCalls_h s)[i := cur\<lparr>call_args := a\<rparr>]\<rparr>))
              | _ \<Rightarrow> Completed s)
           else Completed s)"

fun tool_calls_loop ::
  "'m host \<Rightarrow> 'm handler_vars \<Rightarrow> json list \<Rightarrow> 'm handler_vars attempt" where
  "tool_calls_loop h s [] = Completed s"
| "tool_calls_loop h s (tc # tcs) =
     (case on_tool_call h s tc of
        Thrown s1 \<Rightarrow> Thrown s1
      | Completed s1 \<Rightarrow> tool_calls_loop h s1 tcs)"

text \<open>
  \<^verbatim>\<open>const txt = delta.content || ""; if (txt) { onChunk(txt); fullContent += txt; }\<close>,
  and the block under \<^verbatim>\<open>if (delta)\<close>: the middleware, the text, the tool calls.
\<close>

definition deliver :: "'m handler_vars \<Rightarrow> json option \<Rightarrow> 'm handler_vars" where
  "deliver s c =
     (case c of
        None \<Rightarrow> s
      | Some txt \<Rightarrow>
          if json_truthy txt
          then s\<lparr>delivered := delivered s @ [txt],
                 fullContent_h := fullContent_h s @ to_string txt\<rparr>
          else s)"

definition on_delta ::
  "'m host \<Rightarrow> 'm handler_vars \<Rightarrow> json \<Rightarrow> json \<Rightarrow> 'm handler_vars attempt" where
  "on_delta h s parsed d =
     (case afterStreamChunk h (streamMetadata s) parsed of
        Thrown m \<Rightarrow> Thrown (s\<lparr>streamMetadata := m\<rparr>)
      | Completed m \<Rightarrow>
          (let s1 = deliver (s\<lparr>streamMetadata := m\<rparr>) (member_of d ''content'')
           in case member_of d ''tool_calls'' of
                None \<Rightarrow> Completed s1
              | Some tcs \<Rightarrow>
                  if json_truthy tcs
                  then (case iterate tcs of
                          None \<Rightarrow> Thrown s1
                        | Some entries \<Rightarrow> tool_calls_loop h s1 entries)
                  else Completed s1))"

text \<open>The \<^verbatim>\<open>try\<close> block on one payload, and the block with its \<^verbatim>\<open>catch\<close>, which logs.\<close>

definition try_data :: "'m host \<Rightarrow> 'm handler_vars \<Rightarrow> string \<Rightarrow> 'm handler_vars attempt" where
  "try_data h s dataStr =
     (case JSON_parse h dataStr of
        None \<Rightarrow> Thrown s
      | Some parsed \<Rightarrow>
          (case chunk_delta parsed of
             None \<Rightarrow> Thrown s
           | Some None \<Rightarrow> Completed s
           | Some (Some d) \<Rightarrow>
               if json_truthy d then on_delta h s parsed d else Completed s))"

definition on_data :: "'m host \<Rightarrow> 'm handler_vars \<Rightarrow> string \<Rightarrow> 'm handler_vars" where
  "on_data h s dataStr =
     (case try_data h s dataStr of
        Completed s1 \<Rightarrow> s1
      | Thrown s1 \<Rightarrow> log_error s1)"

text \<open>\<^verbatim>\<open>s.trim()\<close> on code units below 256: the white space and line terminators.\<close>

definition is_space :: "char \<Rightarrow> bool" where
  "is_space c = (of_char c \<in> {9, 10, 11, 12, 13, 32, 160 :: nat})"

definition js_trim :: "string \<Rightarrow> string" where
  "js_trim s = rev (dropWhile is_space (rev (dropWhile is_space s)))"

text \<open>
  The loop over the lines of one turn: a line that is blank or does not start with
  \<^verbatim>\<open>data: \<close> is passed over, the payload \<^verbatim>\<open>[DONE]\<close> leaves the loop, and every
  other payload goes through the \<^verbatim>\<open>try\<close> block.
\<close>

fun lines_loop :: "'m host \<Rightarrow> 'm handler_vars \<Rightarrow> string list \<Rightarrow> 'm handler_vars" where
  "lines_loop h s [] = s"
| "lines_loop h s (line # rest) =
     (if js_trim line = [] \<or> \<not> prefix ''data: '' line then lines_loop h s rest
      else
        let dataStr = drop 6 line
        in if dataStr = ''[DONE]'' then s
           else lines_loop h (on_data h s dataStr) rest)"

text \<open>\<^verbatim>\<open>buffer.split("\n")\<close>: the pieces between the line feeds, at least one.\<close>

fun split_lines :: "string \<Rightarrow> string list" where
  "split_lines [] = [[]]"
| "split_lines (c # cs) =
     (if c = CHR 0x0A then [] # split_lines cs
      else (case split_lines cs of
              [] \<Rightarrow> [[c]]
            | l # ls \<Rightarrow> (c # l) # ls))"

text \<open>
  One turn of the \<^verbatim>\<open>while (true)\<close> loop on a value the reader returns, already
  decoded: the value joins the buffer, the buffer is split at the line feeds, its last
  piece stays as the new buffer and the other pieces are the lines of this turn. The
  loop ends when the reader is done; what the buffer then holds is not read.
\<close>

definition on_read ::
  "'m host \<Rightarrow> 'm handler_vars \<times> string \<Rightarrow> string \<Rightarrow> 'm handler_vars \<times> string" where
  "on_read h sb v =
     (case sb of (s, buffer) \<Rightarrow>
        let buffer1 = buffer @ v;
            lines = split_lines buffer1
        in (lines_loop h s (butlast lines), last lines))"

definition read_loop :: "'m host \<Rightarrow> 'm handler_vars \<Rightarrow> string list \<Rightarrow> 'm handler_vars" where
  "read_loop h s vs = fst (foldl (on_read h) (s, []) vs)"

text \<open>
  The body of a response: the values the reader returns before it is done, and the
  error of the read that rejects, if one does; the outer \<^verbatim>\<open>catch\<close> throws it again.
  The call gives the values it passed to \<^verbatim>\<open>onChunk\<close> and its result or its error.
\<close>

record response_body =
  reads :: "string list"
  read_error :: "string option"

definition result_of :: "'m host \<Rightarrow> 'm handler_vars \<Rightarrow> stream_result" where
  "result_of h s =
     \<lparr>r_fullContent = fullContent_h s, r_toolCalls = toolCalls_h s,
      r_reasoningDetails = reasoning_details h (streamMetadata s)\<rparr>"

definition handleStreamingResponse ::
  "'m host \<Rightarrow> response_body \<Rightarrow> json list \<times> (string + stream_result)" where
  "handleStreamingResponse h body =
     (let s = read_loop h (initial_handler_vars h) (reads body)
      in (delivered s,
          case read_error body of
            Some e \<Rightarrow> Inl e
          | None \<Rightarrow> Inr (result_of h s)))"

text \<open>
  The current call is the call pushed last: the property that \<open>currentToolCall\<close>
  is unset while the array is empty and is the last index afterwards.
\<close>

definition current_is_last :: "'m handler_vars \<Rightarrow> bool" where
  "current_is_last s =
     (case currentToolCall s of
        None \<Rightarrow> toolCalls_h s = []
      | Some i \<Rightarrow> Suc i = length (toolCalls_h s))"

section \<open>JSON text: a host for the examples\<close>

text \<open>
  The statements on the aggregator stream hold for every host. The examples run on a
  host whose \<^verbatim>\<open>JSON.parse\<close> and \<^verbatim>\<open>JSON.stringify\<close> are the functions below.
  They read and write JSON text whose numbers are integer literals and whose code
  units are below 256; values beyond that (fractions, exponents, integers past
  \<^verbatim>\<open>2 ** 53\<close>, member names that are array indices, which the language orders first) are
  outside what they model, and no example uses them.
\<close>

text \<open>The scanner goes through the text one character at a time.\<close>

datatype token =
    TLBrace | TRBrace | TLBracket | TRBracket | TColon | TComma
  | TString string | TNumber int | TTrue | TFalse | TNull

datatype scan_mode =
    Idle
  | InString string
  | InEscape string
  | InUnicode string "nat list"
  | InNumber string
  | InLiteral string

definition is_digit :: "char \<Rightarrow> bool" where
  "is_digit c = (48 \<le> (of_char c :: nat) \<and> (of_char c :: nat) \<le> 57)"

definition is_letter :: "char \<Rightarrow> bool" where
  "is_letter c = (97 \<le> (of_char c :: nat) \<and> (of_char c :: nat) \<le> 122)"

definition is_json_space :: "char \<Rightarrow> bool" where
  "is_json_space c = (of_char c \<in> {9, 10, 13, 32 :: nat})"

definition digit_value :: "char \<Rightarrow> nat" where
  "digit_value c = (of_char c :: nat) - 48"

definition hex_value :: "char \<Rightarrow> nat option" where
  "hex_value c =
     (let n = (of_char c :: nat)
      in if 48 \<le> n \<and> n \<le> 57 then Some (n - 48)
         else if 65 \<le> n \<and> n \<le> 70 then Some (n - 55)
         else if 97 \<le> n \<and> n \<le> 102 then Some (n - 87)
         else None)"

definition natural_of :: "string \<Rightarrow> nat" where
  "natural_of ds = foldl (\<lambda>n c. 10 * n + digit_value c) 0 ds"

text \<open>An integer literal: an optional minus, then 0 or digits that do not start with 0.\<close>

definition number_token :: "string \<Rightarrow> token option" where
  "number_token lit =
     (let neg = (lit \<noteq> [] \<and> hd lit = CHR ''-'');
          ds = (if neg then tl lit else lit)
      in if ds = [] \<or> \<not> list_all is_digit ds \<or> (hd ds = CHR ''0'' \<and> tl ds \<noteq> []) then None
         else Some (TNumber (if neg then - int (natural_of ds) else int (natural_of ds))))"

definition literal_token :: "string \<Rightarrow> token option" where
  "literal_token w =
     (if w = ''true'' then Some TTrue
      else if w = ''false'' then Some TFalse
      else if w = ''null'' then Some TNull
      else None)"

definition escape_value :: "char \<Rightarrow> char option" where
  "escape_value c =
     (if c = CHR 0x22 then Some (CHR 0x22)
      else if c = CHR 0x5C then Some (CHR 0x5C)
      else if c = CHR ''/'' then Some (CHR ''/'')
      else if c = CHR ''b'' then Some (CHR 0x08)
      else if c = CHR ''f'' then Some (CHR 0x0C)
      else if c = CHR ''n'' then Some (CHR 0x0A)
      else if c = CHR ''r'' then Some (CHR 0x0D)
      else if c = CHR ''t'' then Some (CHR 0x09)
      else None)"

text \<open>A character met outside a string, a number and a literal.\<close>

definition idle_step :: "char \<Rightarrow> (scan_mode \<times> token list) option" where
  "idle_step c =
     (if is_json_space c then Some (Idle, [])
      else if c = CHR ''{'' then Some (Idle, [TLBrace])
      else if c = CHR ''}'' then Some (Idle, [TRBrace])
      else if c = CHR ''['' then Some (Idle, [TLBracket])
      else if c = CHR '']'' then Some (Idle, [TRBracket])
      else if c = CHR '':'' then Some (Idle, [TColon])
      else if c = CHR '','' then Some (Idle, [TComma])
      else if c = CHR 0x22 then Some (InString [], [])
      else if c = CHR ''-'' \<or> is_digit c then Some (InNumber [c], [])
      else if is_letter c then Some (InLiteral [c], [])
      else None)"

text \<open>The token a number or a literal in progress gives when the text leaves it.\<close>

definition flush :: "scan_mode \<Rightarrow> token list option" where
  "flush m =
     (case m of
        Idle \<Rightarrow> Some []
      | InNumber acc \<Rightarrow> map_option (\<lambda>t. [t]) (number_token (rev acc))
      | InLiteral acc \<Rightarrow> map_option (\<lambda>t. [t]) (literal_token (rev acc))
      | _ \<Rightarrow> None)"

definition scan_step :: "scan_mode \<Rightarrow> char \<Rightarrow> (scan_mode \<times> token list) option" where
  "scan_step m c =
     (case m of
        InString acc \<Rightarrow>
          if c = CHR 0x22 then Some (Idle, [TString (rev acc)])
          else if c = CHR 0x5C then Some (InEscape acc, [])
          else if (of_char c :: nat) < 32 then None
          else Some (InString (c # acc), [])
      | InEscape acc \<Rightarrow>
          if c = CHR ''u'' then Some (InUnicode acc [], [])
          else map_option (\<lambda>e. (InString (e # acc), [])) (escape_value c)
      | InUnicode acc hs \<Rightarrow>
          (case hex_value c of
             None \<Rightarrow> None
           | Some d \<Rightarrow>
               if length hs < 3 then Some (InUnicode acc (hs @ [d]), [])
               else
                 let n = foldl (\<lambda>a x. 16 * a + x) 0 (hs @ [d])
                 in if n < 256 then Some (InString (char_of n # acc), []) else None)
      | InNumber acc \<Rightarrow>
          if is_digit c then Some (InNumber (c # acc), [])
          else (case (flush m, idle_step c) of
                  (Some ts, Some (m1, ts1)) \<Rightarrow> Some (m1, ts @ ts1)
                | _ \<Rightarrow> None)
      | InLiteral acc \<Rightarrow>
          if is_letter c then Some (InLiteral (c # acc), [])
          else (case (flush m, idle_step c) of
                  (Some ts, Some (m1, ts1)) \<Rightarrow> Some (m1, ts @ ts1)
                | _ \<Rightarrow> None)
      | Idle \<Rightarrow> idle_step c)"

fun scan :: "scan_mode \<Rightarrow> string \<Rightarrow> token list option" where
  "scan m [] = flush m"
| "scan m (c # cs) =
     (case scan_step m c of
        None \<Rightarrow> None
      | Some (m1, ts) \<Rightarrow> map_option (\<lambda>rest. ts @ rest) (scan m1 cs))"

text \<open>
  The parser reads the tokens with a stack of the open arrays and objects. An object
  keeps the first position of a repeated name and its last value.
\<close>

datatype open_value =
    OpenArray "json list"
  | OpenObject "(string \<times> json) list"
  | OpenMember "(string \<times> json) list" string

datatype expecting =
    AValue
  | AValueOrClose
  | AKeyOrClose
  | AKey
  | AColon
  | ACommaOrClose
  | Finished json

definition members :: "(string \<times> json) list \<Rightarrow> (string \<times> json) list" where
  "members rev_ms = foldl (\<lambda>acc (k, v). AList.update k v acc) [] (rev rev_ms)"

definition reduce :: "json \<Rightarrow> open_value list \<Rightarrow> (expecting \<times> open_value list) option" where
  "reduce v stack =
     (case stack of
        [] \<Rightarrow> Some (Finished v, [])
      | OpenArray es # st \<Rightarrow> Some (ACommaOrClose, OpenArray (v # es) # st)
      | OpenMember ms k # st \<Rightarrow> Some (ACommaOrClose, OpenObject ((k, v) # ms) # st)
      | OpenObject ms # st \<Rightarrow> None)"

definition value_step :: "token \<Rightarrow> open_value list \<Rightarrow> (expecting \<times> open_value list) option" where
  "value_step t stack =
     (case t of
        TString s \<Rightarrow> reduce (JStr s) stack
      | TNumber n \<Rightarrow> reduce (JNum n) stack
      | TTrue \<Rightarrow> reduce (JBool True) stack
      | TFalse \<Rightarrow> reduce (JBool False) stack
      | TNull \<Rightarrow> reduce JNull stack
      | TLBracket \<Rightarrow> Some (AValueOrClose, OpenArray [] # stack)
      | TLBrace \<Rightarrow> Some (AKeyOrClose, OpenObject [] # stack)
      | _ \<Rightarrow> None)"

definition close_step :: "token \<Rightarrow> open_value list \<Rightarrow> (expecting \<times> open_value list) option" where
  "close_step t stack =
     (case (t, stack) of
        (TRBracket, OpenArray es # st) \<Rightarrow> reduce (JArr (rev es)) st
      | (TRBrace, OpenObject ms # st) \<Rightarrow> reduce (JObj (members ms)) st
      | _ \<Rightarrow> None)"

definition key_step :: "token \<Rightarrow> open_value list \<Rightarrow> (expecting \<times> open_value list) option" where
  "key_step t stack =
     (case (t, stack) of
        (TString k, OpenObject ms # st) \<Rightarrow> Some (AColon, OpenMember ms k # st)
      | _ \<Rightarrow> None)"

definition parse_step ::
  "expecting \<times> open_value list \<Rightarrow> token \<Rightarrow> (expecting \<times> open_value list) option" where
  "parse_step st t =
     (case st of (e, stack) \<Rightarrow>
        (case e of
           AValue \<Rightarrow> value_step t stack
         | AValueOrClose \<Rightarrow> (if t = TRBracket then close_step t stack else value_step t stack)
         | AKeyOrClose \<Rightarrow> (if t = TRBrace then close_step t stack else key_step t stack)
         | AKey \<Rightarrow> key_step t stack
         | AColon \<Rightarrow> (if t = TColon then Some (AValue, stack) else None)
         | ACommaOrClose \<Rightarrow>
             (if t = TComma
              then (case stack of
                      OpenArray es # r \<Rightarrow> Some (AValue, stack)
                    | OpenObject ms # r \<Rightarrow> Some (AKey, stack)
                    | _ \<Rightarrow> None)
              else close_step t stack)
         | Finished v \<Rightarrow> None))"

fun parse_tokens :: "expecting \<times> open_value list \<Rightarrow> token list \<Rightarrow> json option" where
  "parse_tokens st [] = (case st of (Finished v, []) \<Rightarrow> Some v | _ \<Rightarrow> None)"
| "parse_tokens st (t # ts) =
     (case parse_step st t of
        None \<Rightarrow> None
      | Some st1 \<Rightarrow> parse_tokens st1 ts)"

definition json_parse :: "string \<Rightarrow> json option" where
  "json_parse s =
     (case scan Idle s of
        None \<Rightarrow> None
      | Some ts \<Rightarrow> parse_tokens (AValue, []) ts)"

text \<open>Writing a value as JSON text.\<close>

definition hex_digit :: "nat \<Rightarrow> char" where
  "hex_digit n = ''0123456789abcdef'' ! n"

definition quote_char :: "char \<Rightarrow> string" where
  "quote_char c =
     (if c = CHR 0x22 then [CHR 0x5C, CHR 0x22]
      else if c = CHR 0x5C then [CHR 0x5C, CHR 0x5C]
      else if c = CHR 0x08 then [CHR 0x5C, CHR ''b'']
      else if c = CHR 0x0C then [CHR 0x5C, CHR ''f'']
      else if c = CHR 0x0A then [CHR 0x5C, CHR ''n'']
      else if c = CHR 0x0D then [CHR 0x5C, CHR ''r'']
      else if c = CHR 0x09 then [CHR 0x5C, CHR ''t'']
      else if (of_char c :: nat) < 32
        then [CHR 0x5C, CHR ''u'', CHR ''0'', CHR ''0'',
              hex_digit ((of_char c :: nat) div 16), hex_digit ((of_char c :: nat) mod 16)]
      else [c])"

definition quote :: "string \<Rightarrow> string" where
  "quote s = [CHR 0x22] @ concat (map quote_char s) @ [CHR 0x22]"

fun json_stringify :: "json \<Rightarrow> string"
  and stringify_elements :: "json list \<Rightarrow> string list"
  and stringify_members :: "(string \<times> json) list \<Rightarrow> string list" where
  "json_stringify JNull = ''null''"
| "json_stringify (JBool b) = (if b then ''true'' else ''false'')"
| "json_stringify (JNum n) = (if n < 0 then CHR ''-'' # decimal (nat (- n)) else decimal (nat n))"
| "json_stringify (JStr s) = quote s"
| "json_stringify (JArr xs) = ''['' @ join_with '','' (stringify_elements xs) @ '']''"
| "json_stringify (JObj ms) = ''{'' @ join_with '','' (stringify_members ms) @ ''}''"
| "stringify_elements [] = []"
| "stringify_elements (x # xs) = json_stringify x # stringify_elements xs"
| "stringify_members [] = []"
| "stringify_members ((k, v) # ms) = (quote k @ '':'' @ json_stringify v) # stringify_members ms"

text \<open>
  The host of the examples: the functions above, a middleware that leaves the
  metadata alone, and ids \<^verbatim>\<open>tool_0\<close>, \<^verbatim>\<open>tool_1\<close>, ...
\<close>

definition js_host :: "unit host" where
  "js_host =
     \<lparr>JSON_parse = json_parse, JSON_stringify = json_stringify,
      afterStreamChunk = (\<lambda>m c. Completed m), newMetadata = (),
      reasoning_details = (\<lambda>m. []), generateToolId = (\<lambda>n. ''tool_'' @ decimal n)\<rparr>"

text \<open>
  The lines of a backend stream: a \<^verbatim>\<open>data: \<close> line for a chunk, chunks that
  carry text, a tool-call entry with a name, and a tool-call entry with arguments only.
\<close>

definition data_line :: "json \<Rightarrow> string" where
  "data_line v = ''data: '' @ json_stringify v @ [CHR 0x0A]"

definition delta_chunk :: "(string \<times> json) list \<Rightarrow> json" where
  "delta_chunk d = JObj [(''choices'', JArr [JObj [(''index'', JNum 0), (''delta'', JObj d)]])]"

definition text_chunk :: "string \<Rightarrow> json" where
  "text_chunk t = delta_chunk [(''content'', JStr t)]"

definition opening_fragment :: "string \<Rightarrow> string \<Rightarrow> string \<Rightarrow> json" where
  "opening_fragment ident name arguments =
     delta_chunk
       [(''tool_calls'',
         JArr [JObj [(''index'', JNum 0), (''id'', JStr ident), (''type'', JStr ''function''),
                     (''function'', JObj [(''name'', JStr name), (''arguments'', JStr arguments)])]])]"

definition argument_fragment :: "string \<Rightarrow> json" where
  "argument_fragment arguments =
     delta_chunk
       [(''tool_calls'',
         JArr [JObj [(''index'', JNum 0),
                     (''function'', JObj [(''arguments'', JStr arguments)])]])]"

definition done_line :: string where
  "done_line = ''data: [DONE]'' @ [CHR 0x0A]"

text \<open>
  A tool call in three fragments: the name with empty arguments, then the two halves
  of the arguments \<^verbatim>\<open>{"city":"Paris"}\<close>. The same call with the first half of the
  arguments on the fragment that names it.
\<close>

definition fragmented_call :: response_body where
  "fragmented_call =
     \<lparr>reads = [data_line (opening_fragment ''call_1'' ''get_weather'' []),
               data_line (argument_fragment ''{\"city\":''),
               data_line (argument_fragment ''\"Paris\"}''),
               done_line],
      read_error = None\<rparr>"

definition fragmented_call_named :: response_body where
  "fragmented_call_named =
     \<lparr>reads = [data_line (opening_fragment ''call_1'' ''get_weather'' ''{\"city\":''),
               data_line (argument_fragment ''\"Paris\"}''),
               done_line],
      read_error = None\<rparr>"

text \<open>
  A text chunk, then a tool call whose only fragment carries arguments that are not
  JSON.
\<close>

definition text_and_broken_call :: response_body where
  "text_and_broken_call =
     \<lparr>reads = [data_line (text_chunk ''Hi''),
               data_line (opening_fragment ''call_1'' ''get_weather'' ''{\"city\":''),
               done_line],
      read_error = None\<rparr>"

text \<open>
  A chunk whose \<^verbatim>\<open>tool_calls\<close> array has two entries: a call whose arguments are
  not JSON, then a call whose arguments are the empty object.
\<close>

definition named_call :: "string \<Rightarrow> string \<Rightarrow> string \<Rightarrow> json" where
  "named_call ident name arguments =
     JObj [(''id'', JStr ident), (''type'', JStr ''function''),
           (''function'', JObj [(''name'', JStr name), (''arguments'', JStr arguments)])]"

definition broken_then_whole :: response_body where
  "broken_then_whole =
     \<lparr>reads = [data_line (text_chunk ''Hi''),
               data_line (delta_chunk
                 [(''tool_calls'',
                   JArr [named_call ''call_1'' ''get_weather'' ''{\"city\":'',
                         named_call ''call_2'' ''get_time'' ''{}''])]),
               done_line],
      read_error = None\<rparr>"


section \<open>Lemmas on the canonical stream\<close>

lemma ceil4_div: "ceil4 n = (n + 3) div 4"
proof -
  have "\<lceil>real n / 4\<rceil> = int ((n + 3) div 4)"
  proof (rule ceiling_unique)
    show "real_of_int (int ((n + 3) div 4)) - 1 < real n / 4"
      by (simp; linarith)
    show "real n / 4 \<le> real_of_int (int ((n + 3) div 4))"
      by (simp; linarith)
  qed
  then show ?thesis by (simp add: ceil4_def)
qed

lemma foldl_onChunk_calls:
  "calls (foldl (onChunk now m) v cs) =
     calls v @
       (if cs = [] then []
        else (if isFirstTextChunk v
              then [enqueue (message_start now m),
                    enqueue (content_block_start 0 (text_block []))]
              else []) @
             map enqueue (map (content_block_delta 0) cs))"
  and foldl_onChunk_first:
  "isFirstTextChunk (foldl (onChunk now m) v cs) = (isFirstTextChunk v \<and> cs = [])"
  and foldl_onChunk_streamed:
  "streamedContent (foldl (onChunk now m) v cs) = streamedContent v @ concat cs"
  and foldl_onChunk_index:
  "currentToolUseIndex (foldl (onChunk now m) v cs) = currentToolUseIndex v"
  by (induction cs arbitrary: v; simp add: onChunk_def Let_def textBlockIndex_def)+

lemma tool_use_frames_Cons:
  "tool_use_frames k (tc # tcs) =
     [content_block_start (Suc k) (tool_use_block (tc_id tc) (tc_name tc) (args tc)),
      content_block_stop (Suc k)] @ tool_use_frames (Suc k) tcs"
  by (simp add: tool_use_frames_def)

lemma tool_use_frames_Nil: "tool_use_frames k [] = []"
  by (simp add: tool_use_frames_def)

lemma emitToolCalls_calls:
  "calls (emitToolCalls v tcs) =
     calls v @ map enqueue (tool_use_frames (currentToolUseIndex v) tcs)"
  and emitToolCalls_streamed:
  "streamedContent (emitToolCalls v tcs) = streamedContent v"
  by (induction tcs arbitrary: v; simp add: tool_use_frames_Cons tool_use_frames_Nil Let_def)+

text \<open>Every run that resolves enqueues the text frames, the tool-use frames and the closing frames.\<close>

lemma start_resolved:
  "start now m chunks (Inr result) =
     map enqueue
       (text_frames now m chunks @
        tool_use_frames 0 (toolCalls result) @
        [message_delta ''end_turn'' (output_tokens (concat chunks)),
         message_stop, terminator]) @
     [close]"
  by (simp add: start_def Let_def closeTextBlock_def emitToolCalls_calls emitToolCalls_streamed
      foldl_onChunk_calls foldl_onChunk_first foldl_onChunk_streamed foldl_onChunk_index
      initial_vars_def tool_use_frames_Nil text_frames_def textBlockIndex_def)

lemma emitted_enqueued: "emitted (map enqueue fs @ [close]) = fs"
  by (induction fs) simp_all

lemma tool_use_indices_append:
  "tool_use_indices (xs @ ys) = tool_use_indices xs @ tool_use_indices ys"
  by (induction xs rule: tool_use_indices.induct) simp_all

lemma tool_use_indices_deltas:
  "tool_use_indices (map (content_block_delta i) cs) = []"
  by (induction cs) simp_all

lemma tool_use_indices_text_frames: "tool_use_indices (text_frames now m chunks) = []"
  by (simp add: text_frames_def tool_use_indices_append tool_use_indices_deltas)

lemma block_indices_append:
  "block_indices (xs @ ys) = block_indices xs @ block_indices ys"
  by (induction xs rule: block_indices.induct) simp_all

lemma block_indices_tool_use_frames:
  "\<forall>i \<in> set (block_indices (tool_use_frames k tcs)). k < i"
proof (induction tcs arbitrary: k)
  case Nil
  then show ?case by (simp add: tool_use_frames_Nil)
next
  case (Cons tc tcs)
  from Cons [of "Suc k"] show ?case
    by (auto simp: tool_use_frames_Cons)
qed

lemma tool_use_indices_tool_use_frames:
  "tool_use_indices (tool_use_frames k tcs) = [Suc k ..< Suc k + length tcs]"
proof (induction tcs arbitrary: k)
  case Nil
  then show ?case by (simp add: tool_use_frames_Nil)
next
  case (Cons tc tcs)
  have "[Suc k ..< Suc k + length (tc # tcs)] =
          Suc k # [Suc (Suc k) ..< Suc (Suc k) + length tcs]"
    by (simp add: upt_conv_Cons del: upt_Suc)
  with Cons.IH [of "Suc k"] show ?case
    by (simp add: tool_use_frames_Cons del: upt_Suc)
qed

section \<open>The claims on the canonical stream\<close>

text \<open>
  C2. When the handler passes at least one text chunk to the callback and resolves
  with no tool call, the route enqueues exactly: \<open>message_start\<close>, the start of the
  text block at index 0, one \<open>content_block_delta\<close> at index 0 per chunk, in arrival
  order and with that chunk's text, the stop of block 0, \<open>message_delta\<close>,
  \<open>message_stop\<close> and the terminator; then it closes the stream, and nothing else.
\<close>

theorem text_only_stream_frames:
  assumes "chunks \<noteq> []" and "toolCalls result = []"
  shows "start now m chunks (Inr result) =
     map enqueue
       ([message_start now m, content_block_start 0 (text_block [])] @
        map (content_block_delta 0) chunks @
        [content_block_stop 0,
         message_delta ''end_turn'' (output_tokens (concat chunks)),
         message_stop, terminator]) @
     [close]"
  using assms by (simp add: start_resolved tool_use_frames_Nil text_frames_def)

theorem text_only_stream_frames_witness:
  "[''He'', ''llo''] \<noteq> [] \<and> toolCalls empty_result = [] \<and>
   start 7 ''claude-3-opus'' [''He'', ''llo''] (Inr empty_result) =
     [enqueue (message_start 7 ''claude-3-opus''),
      enqueue (content_block_start 0 (text_block [])),
      enqueue (content_block_delta 0 ''He''),
      enqueue (content_block_delta 0 ''llo''),
      enqueue (content_block_stop 0),
      enqueue (message_delta ''end_turn'' 2),
      enqueue message_stop,
      enqueue terminator,
      close]"
  using text_only_stream_frames [of "[''He'', ''llo'']" empty_result 7 "''claude-3-opus''"]
  by (simp add: empty_result_def output_tokens_def ceil4_div)

text \<open>
  C3. The claim asks for the full envelope, from \<open>message_start\<close> to \<open>message_stop\<close>,
  when the run has no text chunk and no tool call. The route enqueues
  \<open>message_start\<close> only inside the callback, at the first text chunk, so on such a run
  the stream opens with \<open>message_delta\<close>: the envelope has no \<open>message_start\<close>.
\<close>

theorem empty_stream_has_no_message_start:
  "start 7 ''claude-3-opus'' [] (Inr empty_result) =
     [enqueue (message_delta ''end_turn'' 1), enqueue message_stop, enqueue terminator, close]"
  by (simp add: start_def initial_vars_def closeTextBlock_def empty_result_def output_tokens_def)

text \<open>
  C4. With no text chunk and two tool calls \<open>A\<close> then \<open>B\<close>, the route enqueues no block
  at index 0 and exactly the two tool-use blocks, at indices 1 and 2 in call order, each
  start immediately followed by its stop. With no text chunk, no frame of any block has
  the index of the text block. On every run that resolves, the indices of the tool-use
  blocks are 1, 2, ... up to the number of tool calls: strictly increasing, positive,
  and never the index of the text block.
\<close>

theorem tool_use_block_indices:
  "start now m [] (Inr (result\<lparr>toolCalls := [A, B]\<rparr>)) =
     [enqueue (content_block_start 1 (tool_use_block (tc_id A) (tc_name A) (args A))),
      enqueue (content_block_stop 1),
      enqueue (content_block_start 2 (tool_use_block (tc_id B) (tc_name B) (args B))),
      enqueue (content_block_stop 2),
      enqueue (message_delta ''end_turn'' 1),
      enqueue message_stop,
      enqueue terminator,
      close]
   \<and> textBlockIndex \<notin> set (block_indices (emitted (start now m [] (Inr r))))
   \<and> tool_use_indices (emitted (start now m chunks (Inr r))) =
        [1 ..< Suc (length (toolCalls r))]
   \<and> sorted_wrt (<) (tool_use_indices (emitted (start now m chunks (Inr r))))
   \<and> textBlockIndex \<notin> set (tool_use_indices (emitted (start now m chunks (Inr r))))"
proof -
  have "emitted (start now m [] (Inr r)) =
          text_frames now m [] @ tool_use_frames 0 (toolCalls r) @
          [message_delta ''end_turn'' (output_tokens (concat [])), message_stop, terminator]"
    by (simp only: start_resolved emitted_enqueued)
  then have no_text: "textBlockIndex \<notin> set (block_indices (emitted (start now m [] (Inr r))))"
    using block_indices_tool_use_frames [of 0 "toolCalls r"]
    by (auto simp: text_frames_def block_indices_append textBlockIndex_def)
  have idx: "tool_use_indices (emitted (start now m chunks (Inr r))) =
               [1 ..< Suc (length (toolCalls r))]"
    by (simp only: start_resolved emitted_enqueued tool_use_indices_append
        tool_use_indices_text_frames tool_use_indices_tool_use_frames) simp
  have two: "start now m [] (Inr (result\<lparr>toolCalls := [A, B]\<rparr>)) =
     [enqueue (content_block_start 1 (tool_use_block (tc_id A) (tc_name A) (args A))),
      enqueue (content_block_stop 1),
      enqueue (content_block_start 2 (tool_use_block (tc_id B) (tc_name B) (args B))),
      enqueue (content_block_stop 2),
      enqueue (message_delta ''end_turn'' 1),
      enqueue message_stop,
      enqueue terminator,
      close]"
    by (simp add: start_resolved text_frames_def tool_use_frames_Cons tool_use_frames_Nil
        output_tokens_def)
  have "sorted_wrt (<) [1 ..< Suc (length (toolCalls r))]"
    by (rule sorted_wrt_upt)
  moreover have "textBlockIndex \<notin> set [1 ..< Suc (length (toolCalls r))]"
    by (simp add: textBlockIndex_def del: upt_Suc)
  ultimately show ?thesis using idx two no_text by simp
qed

text \<open>
  C9, as stated, fails on a run that streams no character: the estimate of the
  \<open>message_delta\<close> frame is then 1, while zero characters divided by 4 and rounded up
  is 0.
\<close>

theorem output_tokens_counterexample:
  "start 7 ''claude-3-opus'' [] (Inr empty_result) =
     [enqueue (message_delta ''end_turn'' 1), enqueue message_stop, enqueue terminator, close]
   \<and> ceil4 (length (concat ([] :: string list))) = 0"
  by (simp add: start_def initial_vars_def closeTextBlock_def empty_result_def
      output_tokens_def ceil4_div)

text \<open>
  C9, amended. Every run that resolves ends with: the \<open>message_delta\<close> frame, whose stop
  reason is \<open>end_turn\<close> and whose estimate is the number of streamed characters divided
  by 4 and rounded up when at least one character was streamed, and 1 when none was;
  then \<open>message_stop\<close>; then the terminator; then the close of the stream.
\<close>

theorem stream_completion:
  "suffix
     [enqueue (message_delta ''end_turn''
                 (if length (concat chunks) > 0 then ceil4 (length (concat chunks)) else 1)),
      enqueue message_stop, enqueue terminator, close]
     (start now m chunks (Inr result))"
  by (simp add: start_resolved output_tokens_def suffix_def)

section \<open>The claims on the router\<close>

text \<open>
  C5. In monitor mode the handler chosen for a request is the native handler, whatever
  the requested model id, the model mappings, the default model and the Gemini settings.
\<close>

theorem monitor_mode_native:
  "monitorMode cfg \<Longrightarrow> getHandlerForRequest cfg requestedModel = NativeHandler"
  by (simp add: getHandlerForRequest_def)

theorem monitor_mode_native_witness:
  "monitorMode (example_args\<lparr>monitorMode := True\<rparr>) \<and>
   getHandlerForRequest (example_args\<lparr>monitorMode := True\<rparr>) ''claude-3-opus-20240229'' =
     NativeHandler"
  using monitor_mode_native [of "example_args\<lparr>monitorMode := True\<rparr>" "''claude-3-opus-20240229''"]
  by simp

text \<open>
  Outside monitor mode the same server routes by the resolved target: an override that
  names an aggregator model, one that names a Gemini model, the global default when the
  tier has no override, and the next tier when the first matching tier has none.
\<close>

lemma router_examples:
  "getHandlerForRequest example_args ''claude-3-opus-20240229'' = OpenRouterHandler ''openai/gpt-5''"
  "getHandlerForRequest example_args ''claude-Sonnet-4'' = GeminiNativeHandler"
  "getHandlerForRequest example_args ''claude-3-haiku'' = OpenRouterHandler ''x-ai/grok-code-fast-1''"
  "resolveTarget
     (example_args\<lparr>modelMap := Some \<lparr>opus = None, sonnet = Some ''o/s'',
                                      haiku = Some ''o/h'', subagent = None\<rparr>\<rparr>)
     ''OPUS-sonnet'' = ''o/s''"
  by code_simp+

text \<open>
  C6. The resolved target is the override of the first tier among opus, sonnet and
  haiku, in that order, whose name occurs in the lower-cased requested id and whose
  override is configured; a tier whose name occurs but whose override is unset is passed
  over; when no tier applies, the target is the global default when configured, else
  the requested id.
\<close>

theorem resolved_target_first_configured_tier:
  "resolveTarget cfg requestedModel = spec_resolved_target cfg requestedModel"
  by (cases "modelMap cfg")
     (simp_all add: resolveTarget_def spec_resolved_target_def tier_overrides_def js_or_def Let_def)

section \<open>The claim on the Gemini request\<close>

lemma gemini_role_of_None: "gemini_role_of r = None \<longleftrightarrow> r = System"
  by (cases r) (simp_all add: gemini_role_of_def)

text \<open>The history is built from the messages whose role is not system.\<close>

lemma history_has_no_system_message:
  "geminiMessages messages = map to_gemini (filter (\<lambda>m. role m \<noteq> System) messages)"
  by (induction messages) (simp_all add: geminiMessages_def to_gemini_def gemini_role_of_None)

text \<open>
  C10. The claim says that a system message never reaches the Gemini request. The
  filter keeps it out of the history, but when no user message gives the text to send,
  the handler sends the content of the last message of the inbound list. For the
  consolidated system message alone, that is the system prompt: it is sent as the
  message of the request.
\<close>

theorem system_prompt_sent_as_message:
  "gemini_request_of stringify system_only ''gemini-2.5-flash'' None None =
     Inr \<lparr>request_model = ''gemini-2.5-flash'', history = [],
          generationConfig =
            \<lparr>maxOutputTokens = None, temperature = None, topP = None, topK = None\<rparr>,
          function_declarations = None,
          sent_message = Str ''Answer in French.''\<rparr>"
  by (simp add: gemini_request_of_def system_only_def geminiMessages_def to_gemini_def
      gemini_role_of_def truthy_def Let_def)

section \<open>Lemmas on the aggregator stream\<close>

text \<open>Logging changes nothing but the count of logged errors, and every step passes it on.\<close>

lemma log_error_fields [simp]:
  "fullContent_h (log_error s) = fullContent_h s"
  "toolCalls_h (log_error s) = toolCalls_h s"
  "currentToolCall (log_error s) = currentToolCall s"
  "streamMetadata (log_error s) = streamMetadata s"
  "delivered (log_error s) = delivered s"
  "ids_made (log_error s) = ids_made s"
  "logged (log_error s) = Suc (logged s)"
  by (simp_all add: log_error_def)









text \<open>
  The current call stays the last call of the array through every step, so the current
  call is always found when \<open>on_tool_call\<close> looks it up.
\<close>

lemma current_is_last_initial: "current_is_last (initial_handler_vars h)"
  by (simp add: current_is_last_def initial_handler_vars_def)

lemma current_is_last_log [simp]: "current_is_last (log_error s) = current_is_last s"
  by (simp add: current_is_last_def split: option.splits)

lemma on_tool_call_current:
  "current_is_last s \<Longrightarrow> current_is_last (vars_of (on_tool_call h s tc))"
  by (auto simp: on_tool_call_def current_is_last_def Let_def element_def
      split: option.splits)

lemma tool_calls_loop_current:
  "current_is_last s \<Longrightarrow> current_is_last (vars_of (tool_calls_loop h s tcs))"
proof (induction tcs arbitrary: s)
  case Nil
  then show ?case by simp
next
  case (Cons tc tcs)
  from on_tool_call_current [OF Cons.prems, of h tc] Cons.IH show ?case
    by (cases "on_tool_call h s tc") simp_all
qed

lemma on_delta_current:
  "current_is_last s \<Longrightarrow> current_is_last (vars_of (on_delta h s parsed d))"
proof -
  assume a: "current_is_last s"
  have m: "\<And>m. current_is_last (s\<lparr>streamMetadata := m\<rparr>)"
    using a by (simp add: current_is_last_def split: option.splits)
  have t: "\<And>m txt. current_is_last (deliver (s\<lparr>streamMetadata := m\<rparr>) txt)"
    using a by (simp add: current_is_last_def deliver_def split: option.splits)
  show ?thesis
    by (cases "afterStreamChunk h (streamMetadata s) parsed"; cases "member_of d ''tool_calls''";
        cases "iterate (the (member_of d ''tool_calls''))")
       (simp_all add: on_delta_def Let_def m t tool_calls_loop_current)
qed

lemma on_data_current: "current_is_last s \<Longrightarrow> current_is_last (on_data h s d)"
proof -
  assume a: "current_is_last s"
  then have "current_is_last (vars_of (try_data h s d))"
    by (simp add: try_data_def on_delta_current split: option.splits)
  then show ?thesis
    by (cases "try_data h s d") (simp_all add: on_data_def)
qed

lemma lines_loop_current: "current_is_last s \<Longrightarrow> current_is_last (lines_loop h s ls)"
  by (induction ls arbitrary: s) (simp_all add: on_data_current Let_def)

lemma read_loop_current: "current_is_last s \<Longrightarrow> current_is_last (read_loop h s vs)"
proof -
  have "current_is_last s \<Longrightarrow> current_is_last (fst (foldl (on_read h) (s, b) vs))" for b
  proof (induction vs arbitrary: s b)
    case Nil
    then show ?case by simp
  next
    case (Cons v vs)
    have "on_read h (s, b) v =
            (lines_loop h s (butlast (split_lines (b @ v))), last (split_lines (b @ v)))"
      by (simp add: on_read_def Let_def)
    with Cons show ?case
      by (simp add: lines_loop_current)
  qed
  then show "current_is_last s \<Longrightarrow> current_is_last (read_loop h s vs)"
    by (simp add: read_loop_def)
qed

text \<open>Splitting at the line feeds, and the buffer the turns carry.\<close>

lemma split_lines_nonempty [simp]: "split_lines s \<noteq> []"
  by (induction s) (auto split: list.splits)



















section \<open>The claims on the aggregator stream\<close>



text \<open>
  C1. The claim asks that a tool call whose arguments arrive in fragments ends with
  the args that parsing the whole string gives. The handler parses each fragment as it
  comes. With the name on a fragment of empty arguments and the string
  \<^verbatim>\<open>{"city":"Paris"}\<close> in two further fragments, each splice into the serialised
  \<^verbatim>\<open>{}\<close> fails to parse and the call ends with empty args. With the first half of
  the string on the fragment that names the call, that fragment fails to parse, the call
  is never recorded, and the result has no tool call. The whole string parses to the
  object with the city.
\<close>

theorem fragmented_arguments_lost:
  "handleStreamingResponse js_host fragmented_call =
     ([], Inr \<lparr>r_fullContent = [],
               r_toolCalls = [\<lparr>call_id = JStr ''call_1'', call_name = JStr ''get_weather'',
                               call_args = JObj []\<rparr>],
               r_reasoningDetails = []\<rparr>)
   \<and> handleStreamingResponse js_host fragmented_call_named =
     ([], Inr \<lparr>r_fullContent = [], r_toolCalls = [], r_reasoningDetails = []\<rparr>)
   \<and> JSON_parse js_host ([] @ ''{\"city\":'' @ ''\"Paris\"}'') =
       Some (JObj [(''city'', JStr ''Paris'')])"
  by code_simp

text \<open>
  C8. The claim asks that a tool call whose argument text does not parse ends with
  empty-object args, that call only, and that the response completes. The handler
  parses the arguments inside the \<^verbatim>\<open>try\<close> block of the chunk, before it records the
  call. After a text chunk, a call whose arguments \<^verbatim>\<open>{"city":\<close> do not parse is not
  recorded at all: the call returns the text and no tool call. When a second call with
  the arguments \<^verbatim>\<open>{}\<close> follows it in the same chunk, the exception leaves the loop
  before that entry, and the second call is not recorded either.
\<close>

theorem broken_arguments_drop_calls:
  "handleStreamingResponse js_host text_and_broken_call =
     ([JStr ''Hi''],
      Inr \<lparr>r_fullContent = ''Hi'', r_toolCalls = [], r_reasoningDetails = []\<rparr>)
   \<and> handleStreamingResponse js_host broken_then_whole =
     ([JStr ''Hi''],
      Inr \<lparr>r_fullContent = ''Hi'', r_toolCalls = [], r_reasoningDetails = []\<rparr>)
   \<and> JSON_parse js_host ''{\"city\":'' = None
   \<and> JSON_parse js_host ''{}'' = Some (JObj [])"
  by code_simp

end
